theory Spec2Isabelle
  imports Complex_Main
begin

section \<open>Numbers and formatting\<close>

text \<open>
  A weight of the model and a value the model returns is a JavaScript number read from a
  float32 tensor: a finite number, represented by the real it denotes, or one of the two
  infinities, or NaN. The arithmetic on such numbers happens inside the library (its dot
  layer, its optimiser) and is not reproduced here; \<^verbatim>\<open>Math.max\<close>,
  \<^verbatim>\<open>Math.min\<close> and \<^verbatim>\<open>toFixed\<close>, which the scripts apply themselves, are.

  Ids read from a dropdown go through \<^verbatim>\<open>parseInt\<close>, whose result is an integer or
  NaN: an \<open>int option\<close>, with \<open>None\<close> for NaN. Ids are integers of magnitude up to
  \<open>2^24\<close>, which a float32 tensor holds exactly. Clock readings and the losses reported
  by fit are taken as reals.

  \<^verbatim>\<open>x.toFixed(d)\<close> picks the integer \<open>n\<close> with \<open>n / 10^d\<close> closest to \<open>x\<close>, the
  larger one on a tie, after taking the sign off a negative \<open>x\<close>; for NaN and the
  infinities it prints their names. The digits it prints are represented by the number they
  denote.
\<close>

datatype jsnum = Num real | PosInf | NegInf | NaN

definition toFixed :: "nat \<Rightarrow> real \<Rightarrow> real" where
  "toFixed d x =
     (if x < 0 then - (of_int \<lfloor>- x * 10 ^ d + 1 / 2\<rfloor> / 10 ^ d)
      else of_int \<lfloor>x * 10 ^ d + 1 / 2\<rfloor> / 10 ^ d)"

definition toFixedJs :: "nat \<Rightarrow> jsnum \<Rightarrow> jsnum" where
  "toFixedJs d x = (case x of Num r \<Rightarrow> Num (toFixed d r) | PosInf \<Rightarrow> PosInf | NegInf \<Rightarrow> NegInf | NaN \<Rightarrow> NaN)"

text \<open>\<^verbatim>\<open>Math.max\<close> and \<^verbatim>\<open>Math.min\<close> of two numbers: NaN as soon as one of them is NaN.\<close>

fun mathMax :: "jsnum \<Rightarrow> jsnum \<Rightarrow> jsnum" where
  "mathMax NaN y = NaN"
| "mathMax x NaN = NaN"
| "mathMax PosInf y = PosInf"
| "mathMax x PosInf = PosInf"
| "mathMax NegInf y = y"
| "mathMax x NegInf = x"
| "mathMax (Num a) (Num b) = Num (max a b)"

fun mathMin :: "jsnum \<Rightarrow> jsnum \<Rightarrow> jsnum" where
  "mathMin NaN y = NaN"
| "mathMin x NaN = NaN"
| "mathMin NegInf y = NegInf"
| "mathMin x NegInf = NegInf"
| "mathMin PosInf y = y"
| "mathMin x PosInf = x"
| "mathMin (Num a) (Num b) = Num (min a b)"

section \<open>The calls made into TensorFlow.js\<close>

text \<open>
  The scripts build, train and query the model through the TensorFlow.js library, which is
  not part of the repository. This section stands for the calls the scripts make. What the
  repository's source does not determine is a parameter, collected in \<open>tfjs\<close>:
  the initial (random) weights, what the embedding layer does with a non-positive size,
  what the backend's lookup does with an index outside the table, and the number the dot
  layer computes in float32 from two rows. The outcome of \<^verbatim>\<open>model.fit\<close> (the
  numerical optimisation) is a parameter of the functions that resume after it.
\<close>

type_synonym table = "jsnum list list"

datatype layer = UserLayer | MovieLayer

record tfjs =
  initialWeight :: "layer \<Rightarrow> nat \<Rightarrow> nat \<Rightarrow> jsnum"
  dimError :: "int \<Rightarrow> int \<Rightarrow> string option"
  gatherOutside :: "table \<Rightarrow> int \<Rightarrow> string + jsnum list"
  dotLayer :: "jsnum list \<Rightarrow> jsnum list \<Rightarrow> jsnum"

datatype optimizer = Adam real

datatype loss = MeanSquaredError

record model =
  userEmbedding :: table
  movieEmbedding :: table
  compiled :: "(optimizer \<times> loss) option"

definition fill :: "nat \<Rightarrow> nat \<Rightarrow> (nat \<Rightarrow> nat \<Rightarrow> jsnum) \<Rightarrow> table" where
  "fill rows cols w = map (\<lambda>i. map (\<lambda>j. w i j) [0..<cols]) [0..<rows]"

text \<open>
  \<^verbatim>\<open>tf.layers.embedding({inputDim, outputDim})\<close>: a weight table of \<open>inputDim\<close> rows of
  \<open>outputDim\<close> entries each, when both sizes are positive.
\<close>

definition embedding :: "tfjs \<Rightarrow> layer \<Rightarrow> int \<Rightarrow> int \<Rightarrow> string + table" where
  "embedding lib l inputDim outputDim =
     (case (if 0 < inputDim \<and> 0 < outputDim then None else dimError lib inputDim outputDim) of
        Some e \<Rightarrow> Inl e
      | None \<Rightarrow> Inr (fill (nat inputDim) (nat outputDim) (initialWeight lib l)))"

text \<open>The embedding lookup: row \<open>i\<close> of the table when \<open>i\<close> is an index of it.\<close>

definition gather :: "tfjs \<Rightarrow> table \<Rightarrow> int \<Rightarrow> string + jsnum list" where
  "gather lib t i =
     (if 0 \<le> i \<and> i < int (length t) then Inr (t ! nat i) else gatherOutside lib t i)"

text \<open>
  \<^verbatim>\<open>tf.input({shape})\<close> is a symbolic tensor with a batch axis in front of the given
  shape; an embedding layer adds one axis to its input; \<^verbatim>\<open>tf.layers.flatten()\<close>
  accepts an input of at least three axes and throws when applied to fewer.
\<close>

definition inputRank :: "nat list \<Rightarrow> nat" where
  "inputRank shape = Suc (length shape)"

definition embeddingRank :: "nat \<Rightarrow> nat" where
  "embeddingRank r = Suc r"

definition flatten :: "nat \<Rightarrow> string + nat" where
  "flatten r = (if 3 \<le> r then Inr 2 else Inl ''flatten: expected min_ndim=3'')"

text \<open>
  \<^verbatim>\<open>model.predict([[[u]], [[m]]])\<close>: look both ids up and hand the two rows to the dot
  layer (\<^verbatim>\<open>tf.layers.dot({axes: 1})\<close> on the two flattened embeddings).
\<close>

definition predict :: "tfjs \<Rightarrow> model \<Rightarrow> int \<Rightarrow> int \<Rightarrow> string + jsnum" where
  "predict lib md u m =
     (case gather lib (userEmbedding md) u of
        Inl e \<Rightarrow> Inl e
      | Inr uv \<Rightarrow>
          (case gather lib (movieEmbedding md) m of
             Inl e \<Rightarrow> Inl e
           | Inr mv \<Rightarrow> Inr (dotLayer lib uv mv)))"

definition compile :: "optimizer \<Rightarrow> loss \<Rightarrow> model \<Rightarrow> model" where
  "compile opt l md = md\<lparr>compiled := Some (opt, l)\<rparr>"

record fitArgs =
  epochs :: nat
  batchSize :: nat
  validationSplit :: "real option"

record fitCall =
  userInputs :: "int list"
  movieInputs :: "int list"
  targets :: "real list"
  args :: fitArgs

text \<open>
  What a \<^verbatim>\<open>model.fit\<close> call has done when its promise settles: the weights it left in
  the two tables (it changes values, never a table's shape; a value can be NaN or infinite),
  the loss it reported at the end of each epoch together with the clock reading at that
  moment, and the error it rejected with, if any.
\<close>

record fitOutcome =
  userWeights :: "nat \<Rightarrow> nat \<Rightarrow> jsnum"
  movieWeights :: "nat \<Rightarrow> nat \<Rightarrow> jsnum"
  epochLogs :: "(real \<times> real) list"
  rejected :: "string option"

definition assign :: "(nat \<Rightarrow> nat \<Rightarrow> jsnum) \<Rightarrow> table \<Rightarrow> table" where
  "assign w t = map (\<lambda>i. map (\<lambda>j. w i j) [0..<length (t ! i)]) [0..<length t]"

definition fitted :: "fitOutcome \<Rightarrow> model \<Rightarrow> model" where
  "fitted out md =
     md\<lparr>userEmbedding := assign (userWeights out) (userEmbedding md),
        movieEmbedding := assign (movieWeights out) (movieEmbedding md)\<rparr>"

text \<open>How an async function's promise settles, and where it stands at an \<^verbatim>\<open>await\<close>.\<close>

datatype completion = Resolved | Rejected string

datatype pending = Settled completion | AwaitingFit fitCall

section \<open>The variant with the training flag (src/unnamed/part\_000)\<close>

subsection \<open>Globals of its data.js\<close>

record rating =
  userId :: int
  movieId :: int
  stars :: real

record movie =
  movie_id :: int
  title :: string

record dataset =
  movies :: "movie list"
  ratings :: "rating list"
  numUsers :: nat
  numMovies :: nat

text \<open>
  \<^verbatim>\<open>loadData\<close> after fetching and parsing: \<open>numUsers\<close> is the number of distinct
  user ids among the ratings, \<open>numMovies\<close> the number of parsed movies.
\<close>

definition loadData :: "movie list \<Rightarrow> rating list \<Rightarrow> dataset" where
  "loadData ms rs =
     \<lparr>movies = ms, ratings = rs,
      numUsers = length (remdups (map userId rs)), numMovies = length ms\<rparr>"

subsection \<open>Globals of script.js and the page\<close>

datatype label = Titled string | MovieNo int

datatype message =
    Blank
  | CreatingArchitecture
  | PreparingData
  | TrainingOn nat
  | EpochProgress nat real real
  | TrainedSuccessfully real
  | TrainingFailed string
  | ModelNotReady
  | PleaseSelectBoth
  | Predicting int label
  | PredictedRating int label real
  | PredictionFailed string
  | PredictedNaN int label
  | PredictedInfinity int label
  | PredictedMinusInfinity int label

record state =
  model :: "model option"
  isTraining :: bool
  trainingStartTime :: "real option"
  result :: message
  predictBtnDisabled :: bool

definition updateResult :: "message \<Rightarrow> state \<Rightarrow> state" where
  "updateResult msg s = s\<lparr>result := msg\<rparr>"

text \<open>The option values of the user dropdown: the distinct user ids, ascending.\<close>

definition populateUserDropdown :: "dataset \<Rightarrow> int list" where
  "populateUserDropdown ds = sort (remdups (map userId (ratings ds)))"

subsection \<open>createModel\<close>

text \<open>
  Both inputs have shape \<open>[1]\<close>, so each embedding has three axes when it is flattened.
\<close>

definition createModel :: "tfjs \<Rightarrow> int \<Rightarrow> int \<Rightarrow> int \<Rightarrow> string + model" where
  "createModel lib nUsers nMovies latentDim =
     (case embedding lib UserLayer (nUsers + 1) latentDim of
        Inl e \<Rightarrow> Inl e
      | Inr ut \<Rightarrow>
          (case embedding lib MovieLayer (nMovies + 1) latentDim of
             Inl e \<Rightarrow> Inl e
           | Inr mt \<Rightarrow>
               (case flatten (embeddingRank (inputRank [1])) of
                  Inl e \<Rightarrow> Inl e
                | Inr uf \<Rightarrow>
                    (case flatten (embeddingRank (inputRank [1])) of
                       Inl e \<Rightarrow> Inl e
                     | Inr mf \<Rightarrow> Inr \<lparr>userEmbedding = ut, movieEmbedding = mt, compiled = None\<rparr>))))"

subsection \<open>trainModel\<close>

text \<open>
  \<^verbatim>\<open>trainModel\<close> is an async function with one \<^verbatim>\<open>await\<close>, on \<^verbatim>\<open>model.fit\<close>.
  \<open>trainModel_begin\<close> is the part that runs up to that \<^verbatim>\<open>await\<close> (or to the end, when
  the call returns or fails before it), \<open>onEpochEnd\<close> the callback that fit runs after
  each epoch, \<open>trainModel_resume\<close> the part that runs once fit has settled. Other calls
  can run between the two parts. The \<^verbatim>\<open>catch\<close> block and the \<^verbatim>\<open>finally\<close> block
  are \<open>trainingCatch\<close> and \<open>trainingFinally\<close>. Console output is not part of the state.
  An error thrown between \<^verbatim>\<open>createModel\<close> and the \<^verbatim>\<open>await\<close> (by compile or by a
  tensor constructor) ends in the same catch block as a rejection of fit and is not told
  apart from one. The elapsed seconds in the messages are the exact quotient of the elapsed
  milliseconds by 1000; the script divides in double precision, so the tenth it prints can
  differ from this one when the quotient lies half-way between two tenths.
\<close>

definition trainingCatch :: "string \<Rightarrow> state \<Rightarrow> state" where
  "trainingCatch e s = updateResult (TrainingFailed e) s"

definition trainingFinally :: "state \<Rightarrow> state" where
  "trainingFinally s = s\<lparr>isTraining := False\<rparr>"

definition startTime :: "state \<Rightarrow> real" where
  "startTime s = (case trainingStartTime s of None \<Rightarrow> 0 | Some t \<Rightarrow> t)"

definition fitRequest :: "dataset \<Rightarrow> fitCall" where
  "fitRequest ds =
     \<lparr>userInputs = map userId (ratings ds),
      movieInputs = map movieId (ratings ds),
      targets = map stars (ratings ds),
      args = \<lparr>epochs = 10, batchSize = 64, validationSplit = Some (1 / 10)\<rparr>\<rparr>"

definition trainModel_begin :: "tfjs \<Rightarrow> dataset \<Rightarrow> real \<Rightarrow> state \<Rightarrow> pending \<times> state" where
  "trainModel_begin lib ds now s =
     (if isTraining s then (Settled Resolved, s)
      else
        let s1 = updateResult CreatingArchitecture
                   (s\<lparr>isTraining := True, trainingStartTime := Some now\<rparr>)
        in case createModel lib (int (numUsers ds)) (int (numMovies ds)) 15 of
             Inl e \<Rightarrow> (Settled Resolved, trainingFinally (trainingCatch e s1))
           | Inr md \<Rightarrow>
               (AwaitingFit (fitRequest ds),
                updateResult (TrainingOn (length (ratings ds)))
                  (updateResult PreparingData
                     (s1\<lparr>model := Some (compile (Adam (1 / 1000)) MeanSquaredError md)\<rparr>))))"

definition onEpochEnd :: "nat \<Rightarrow> real \<Rightarrow> real \<Rightarrow> state \<Rightarrow> state" where
  "onEpochEnd epoch l now s =
     updateResult (EpochProgress (epoch + 1) (toFixed 4 l) (toFixed 1 ((now - startTime s) / 1000))) s"

fun epochCallbacks :: "nat \<Rightarrow> (real \<times> real) list \<Rightarrow> state \<Rightarrow> state" where
  "epochCallbacks epoch [] s = s"
| "epochCallbacks epoch ((l, now) # logs) s = epochCallbacks (epoch + 1) logs (onEpochEnd epoch l now s)"

definition trainModel_resume :: "fitOutcome \<Rightarrow> real \<Rightarrow> state \<Rightarrow> completion \<times> state" where
  "trainModel_resume out now s =
     (let s1 = epochCallbacks 0 (epochLogs out) (s\<lparr>model := map_option (fitted out) (model s)\<rparr>)
      in case rejected out of
           Some e \<Rightarrow> (Resolved, trainingFinally (trainingCatch e s1))
         | None \<Rightarrow>
             (Resolved,
              trainingFinally
                (updateResult (TrainedSuccessfully (toFixed 1 ((now - startTime s1) / 1000)))
                   (s1\<lparr>predictBtnDisabled := False\<rparr>))))"

text \<open>A whole call with nothing running in between.\<close>

definition trainModel :: "tfjs \<Rightarrow> dataset \<Rightarrow> real \<Rightarrow> fitOutcome \<Rightarrow> real \<Rightarrow> state \<Rightarrow> completion \<times> state" where
  "trainModel lib ds t0 out t1 s =
     (case trainModel_begin lib ds t0 s of
        (Settled c, s') \<Rightarrow> (c, s')
      | (AwaitingFit call, s') \<Rightarrow> trainModel_resume out t1 s')"

subsection \<open>predictRating\<close>

definition movieTitle :: "dataset \<Rightarrow> int \<Rightarrow> label" where
  "movieTitle ds m =
     (case find (\<lambda>x. movie_id x = m) (movies ds) of
        Some x \<Rightarrow> Titled (title x)
      | None \<Rightarrow> MovieNo m)"

text \<open>
  What the page shows for \<^verbatim>\<open>Math.min(Math.max(rating, 1), 5).toFixed(2)\<close>: two
  decimals for a finite number, the name of the value otherwise.
\<close>

definition ratingMessage :: "int \<Rightarrow> label \<Rightarrow> jsnum \<Rightarrow> message" where
  "ratingMessage u l x =
     (case toFixedJs 2 (mathMin (mathMax x (Num 1)) (Num 5)) of
        Num r \<Rightarrow> PredictedRating u l r
      | PosInf \<Rightarrow> PredictedInfinity u l
      | NegInf \<Rightarrow> PredictedMinusInfinity u l
      | NaN \<Rightarrow> PredictedNaN u l)"

text \<open>
  The two arguments are what \<^verbatim>\<open>parseInt\<close> made of the selected dropdown values.
  \<^verbatim>\<open>!userId || !movieId\<close> holds when either is NaN or 0.
\<close>

definition predictRating :: "tfjs \<Rightarrow> dataset \<Rightarrow> int option \<Rightarrow> int option \<Rightarrow> state \<Rightarrow> state" where
  "predictRating lib ds uSel mSel s =
     (case model s of
        None \<Rightarrow> updateResult ModelNotReady s
      | Some md \<Rightarrow>
          (case (uSel, mSel) of
             (Some u, Some m) \<Rightarrow>
               (if u = 0 \<or> m = 0 then updateResult PleaseSelectBoth s
                else
                  let s1 = updateResult (Predicting u (movieTitle ds m)) s
                  in case predict lib md u m of
                       Inl e \<Rightarrow> updateResult (PredictionFailed e) s1
                     | Inr r \<Rightarrow> updateResult (ratingMessage u (movieTitle ds m) r) s1)
           | _ \<Rightarrow> updateResult PleaseSelectBoth s))"

subsection \<open>The states the page goes through\<close>

text \<open>
  The page starts with no model and the flag clear. From there, calls of
  \<^verbatim>\<open>trainModel\<close> begin, epochs end and a pending fit settles while the flag is set,
  and \<^verbatim>\<open>predictRating\<close> may run at any moment in between. The data set is loaded
  before the first call and stays as it is.
\<close>

inductive reachable :: "dataset \<Rightarrow> state \<Rightarrow> bool" for ds :: dataset where
  loaded: "model s = None \<Longrightarrow> \<not> isTraining s \<Longrightarrow> reachable ds s"
| begun: "reachable ds s \<Longrightarrow> reachable ds (snd (trainModel_begin lib ds now s))"
| epoch: "reachable ds s \<Longrightarrow> isTraining s \<Longrightarrow> reachable ds (onEpochEnd e l now s)"
| resumed: "reachable ds s \<Longrightarrow> isTraining s \<Longrightarrow> reachable ds (snd (trainModel_resume out now s))"
| predicted: "reachable ds s \<Longrightarrow> reachable ds (predictRating lib ds uSel mSel s)"

section \<open>The variant without the flag (src/week3/script.js)\<close>

record w3_dataset =
  w3_ratings :: "rating list"
  w3_movies :: "int \<Rightarrow> string option"
  w3_numUsers :: nat
  w3_numMovies :: nat

datatype w3_message =
    W3Loading
  | W3Training
  | W3Trained
  | W3Predicted int "string option" jsnum

record w3_state =
  w3_model :: "model option"
  w3_result :: w3_message

text \<open>
  Here both inputs have the empty shape, so each embedding has two axes when
  \<^verbatim>\<open>flatten\<close> is applied to it.
\<close>

definition w3_createModel :: "tfjs \<Rightarrow> int \<Rightarrow> int \<Rightarrow> int \<Rightarrow> string + model" where
  "w3_createModel lib nUsers nMovies latentDim =
     (case embedding lib UserLayer nUsers latentDim of
        Inl e \<Rightarrow> Inl e
      | Inr ut \<Rightarrow>
          (case embedding lib MovieLayer nMovies latentDim of
             Inl e \<Rightarrow> Inl e
           | Inr mt \<Rightarrow>
               (case flatten (embeddingRank (inputRank [])) of
                  Inl e \<Rightarrow> Inl e
                | Inr uf \<Rightarrow>
                    (case flatten (embeddingRank (inputRank [])) of
                       Inl e \<Rightarrow> Inl e
                     | Inr mf \<Rightarrow> Inr \<lparr>userEmbedding = ut, movieEmbedding = mt, compiled = None\<rparr>))))"

definition w3_fitRequest :: "w3_dataset \<Rightarrow> fitCall" where
  "w3_fitRequest ds =
     \<lparr>userInputs = map userId (w3_ratings ds),
      movieInputs = map movieId (w3_ratings ds),
      targets = map stars (w3_ratings ds),
      args = \<lparr>epochs = 5, batchSize = 64, validationSplit = None\<rparr>\<rparr>"

text \<open>
  This \<^verbatim>\<open>trainModel\<close> has no flag, no exception handler and no callback: an error thrown by
  the library rejects the call's promise.
\<close>

definition w3_trainModel_begin :: "tfjs \<Rightarrow> w3_dataset \<Rightarrow> w3_state \<Rightarrow> pending \<times> w3_state" where
  "w3_trainModel_begin lib ds s =
     (let s1 = s\<lparr>w3_result := W3Training\<rparr>
      in case w3_createModel lib (int (w3_numUsers ds)) (int (w3_numMovies ds)) 20 of
           Inl e \<Rightarrow> (Settled (Rejected e), s1)
         | Inr md \<Rightarrow>
             (AwaitingFit (w3_fitRequest ds),
              s1\<lparr>w3_model := Some (compile (Adam (1 / 1000)) MeanSquaredError md)\<rparr>))"

definition w3_trainModel_resume :: "fitOutcome \<Rightarrow> w3_state \<Rightarrow> completion \<times> w3_state" where
  "w3_trainModel_resume out s =
     (let s1 = s\<lparr>w3_model := map_option (fitted out) (w3_model s)\<rparr>
      in case rejected out of
           Some e \<Rightarrow> (Rejected e, s1)
         | None \<Rightarrow> (Resolved, s1\<lparr>w3_result := W3Trained\<rparr>))"

definition w3_trainModel :: "tfjs \<Rightarrow> w3_dataset \<Rightarrow> fitOutcome \<Rightarrow> w3_state \<Rightarrow> completion \<times> w3_state" where
  "w3_trainModel lib ds out s =
     (case w3_trainModel_begin lib ds s of
        (Settled c, s') \<Rightarrow> (c, s')
      | (AwaitingFit call, s') \<Rightarrow> w3_trainModel_resume out s')"


section \<open>A concrete library, data and pages\<close>

text \<open>
  For running the scripts on concrete inputs: a library that refuses every non-positive
  layer size and every index outside a table, and whose dot layer adds up the products of
  the entries from left to right without rounding.
\<close>

fun jsMul :: "jsnum \<Rightarrow> jsnum \<Rightarrow> jsnum" where
  "jsMul NaN y = NaN"
| "jsMul x NaN = NaN"
| "jsMul (Num a) (Num b) = Num (a * b)"
| "jsMul (Num a) PosInf = (if a = 0 then NaN else if 0 < a then PosInf else NegInf)"
| "jsMul (Num a) NegInf = (if a = 0 then NaN else if 0 < a then NegInf else PosInf)"
| "jsMul PosInf (Num b) = (if b = 0 then NaN else if 0 < b then PosInf else NegInf)"
| "jsMul NegInf (Num b) = (if b = 0 then NaN else if 0 < b then NegInf else PosInf)"
| "jsMul PosInf PosInf = PosInf"
| "jsMul PosInf NegInf = NegInf"
| "jsMul NegInf PosInf = NegInf"
| "jsMul NegInf NegInf = PosInf"

fun jsAdd :: "jsnum \<Rightarrow> jsnum \<Rightarrow> jsnum" where
  "jsAdd NaN y = NaN"
| "jsAdd x NaN = NaN"
| "jsAdd (Num a) (Num b) = Num (a + b)"
| "jsAdd PosInf NegInf = NaN"
| "jsAdd NegInf PosInf = NaN"
| "jsAdd PosInf y = PosInf"
| "jsAdd x PosInf = PosInf"
| "jsAdd NegInf y = NegInf"
| "jsAdd x NegInf = NegInf"

definition exactDot :: "jsnum list \<Rightarrow> jsnum list \<Rightarrow> jsnum" where
  "exactDot u v = foldl jsAdd (Num 0) (map2 jsMul u v)"

definition strictLib :: tfjs where
  "strictLib =
     \<lparr>initialWeight = (\<lambda>l i j. Num (1 / 10)),
      dimError = (\<lambda>i d. Some ''size is not a positive integer''),
      gatherOutside = (\<lambda>t i. Inl ''index is not in the table''),
      dotLayer = exactDot\<rparr>"

definition sampleData :: dataset where
  "sampleData =
     loadData
       [\<lparr>movie_id = 1, title = ''Toy Story (1995)''\<rparr>,
        \<lparr>movie_id = 2, title = ''GoldenEye (1995)''\<rparr>]
       [\<lparr>userId = 1, movieId = 1, stars = 5\<rparr>,
        \<lparr>userId = 2, movieId = 1, stars = 3\<rparr>,
        \<lparr>userId = 3, movieId = 2, stars = 4\<rparr>]"

definition freshPage :: state where
  "freshPage =
     \<lparr>model = None, isTraining = False, trainingStartTime = None, result = Blank,
      predictBtnDisabled = True\<rparr>"

text \<open>
  Three ways a fit can settle: resolved with finite weights, resolved with NaN weights, and
  rejected.
\<close>

definition fitDone :: fitOutcome where
  "fitDone =
     \<lparr>userWeights = (\<lambda>i j. Num (1 / 2)), movieWeights = (\<lambda>i j. Num (1 / 2)),
      epochLogs = [(4, 1200), (3, 2400)], rejected = None\<rparr>"

definition fitNaN :: fitOutcome where
  "fitNaN =
     \<lparr>userWeights = (\<lambda>i j. NaN), movieWeights = (\<lambda>i j. NaN),
      epochLogs = [], rejected = None\<rparr>"

definition fitBroken :: fitOutcome where
  "fitBroken =
     \<lparr>userWeights = (\<lambda>i j. Num (1 / 10)), movieWeights = (\<lambda>i j. Num (1 / 10)),
      epochLogs = [], rejected = Some ''index is not in the table''\<rparr>"

text \<open>
  The page while its first training run awaits fit, after a run that succeeded, after one
  that succeeded with NaN weights, and after one that failed.
\<close>

definition trainingPage :: state where
  "trainingPage = snd (trainModel_begin strictLib sampleData 0 freshPage)"

definition trainedPage :: state where
  "trainedPage = snd (trainModel strictLib sampleData 0 fitDone 3000 freshPage)"

definition nanPage :: state where
  "nanPage = snd (trainModel strictLib sampleData 0 fitNaN 3000 freshPage)"

definition failedPage :: state where
  "failedPage = snd (trainModel strictLib sampleData 0 fitBroken 3000 freshPage)"

definition trainedModel :: model where
  "trainedModel =
     \<lparr>userEmbedding = fill 4 15 (\<lambda>i j. Num (1 / 2)), movieEmbedding = fill 3 15 (\<lambda>i j. Num (1 / 2)),
      compiled = Some (Adam (1 / 1000), MeanSquaredError)\<rparr>"

definition nanModel :: model where
  "nanModel =
     \<lparr>userEmbedding = fill 4 15 (\<lambda>i j. NaN), movieEmbedding = fill 3 15 (\<lambda>i j. NaN),
      compiled = Some (Adam (1 / 1000), MeanSquaredError)\<rparr>"

definition createdModel :: model where
  "createdModel =
     \<lparr>userEmbedding = fill 4 15 (\<lambda>i j. Num (1 / 10)), movieEmbedding = fill 3 15 (\<lambda>i j. Num (1 / 10)),
      compiled = Some (Adam (1 / 1000), MeanSquaredError)\<rparr>"

definition w3_sampleData :: w3_dataset where
  "w3_sampleData =
     \<lparr>w3_ratings =
        [\<lparr>userId = 0, movieId = 0, stars = 5\<rparr>,
         \<lparr>userId = 1, movieId = 0, stars = 3\<rparr>,
         \<lparr>userId = 2, movieId = 1, stars = 4\<rparr>],
      w3_movies = map_of [(1, ''Toy Story (1995)''), (2, ''GoldenEye (1995)'')],
      w3_numUsers = 3, w3_numMovies = 2\<rparr>"

definition w3_freshPage :: w3_state where
  "w3_freshPage = \<lparr>w3_model = None, w3_result = W3Loading\<rparr>"

section \<open>Facts about the library calls and the steps of the page\<close>

lemma length_fill: "length (fill r c w) = r"
  by (simp add: fill_def)

lemma fill_row_length: "row \<in> set (fill r c w) \<Longrightarrow> length row = c"
  by (auto simp: fill_def)

lemma nth_fill: "i < r \<Longrightarrow> fill r c w ! i = map (w i) [0..<c]"
  by (simp add: fill_def)

lemma length_assign: "length (assign w t) = length t"
  by (simp add: assign_def)

lemma assign_row_length: "i < length t \<Longrightarrow> length (assign w t ! i) = length (t ! i)"
  by (simp add: assign_def)

lemma assign_fill: "assign w (fill r c w0) = fill r c w"
  by (simp add: assign_def fill_def)

lemma embedding_positive:
  "0 < i \<Longrightarrow> 0 < d \<Longrightarrow> embedding lib l i d = Inr (fill (nat i) (nat d) (initialWeight lib l))"
  by (simp add: embedding_def)

lemma embedding_Inl: "embedding lib l i d = Inl e \<Longrightarrow> dimError lib i d = Some e \<and> (i \<le> 0 \<or> d \<le> 0)"
  by (auto simp: embedding_def split: if_splits option.splits)

lemma embedding_refused:
  "dimError lib i d = Some e \<Longrightarrow> i \<le> 0 \<or> d \<le> 0 \<Longrightarrow> embedding lib l i d = Inl e"
  by (auto simp: embedding_def)

lemma flatten_three: "flatten (embeddingRank (inputRank [x])) = Inr 2"
  by (simp add: flatten_def embeddingRank_def inputRank_def)

lemma flatten_two: "flatten (embeddingRank (inputRank [])) = Inl ''flatten: expected min_ndim=3''"
  by (simp add: flatten_def embeddingRank_def inputRank_def)

lemma createModel_positive:
  "0 \<le> n \<Longrightarrow> 0 \<le> k \<Longrightarrow> 0 < d \<Longrightarrow>
   createModel lib n k d =
     Inr \<lparr>userEmbedding = fill (nat (n + 1)) (nat d) (initialWeight lib UserLayer),
          movieEmbedding = fill (nat (k + 1)) (nat d) (initialWeight lib MovieLayer),
          compiled = None\<rparr>"
  by (simp add: createModel_def embedding_positive flatten_three)

lemma createModel_Inl:
  "createModel lib n k d = Inl e \<Longrightarrow>
   dimError lib (n + 1) d = Some e \<or> dimError lib (k + 1) d = Some e"
  by (auto simp: createModel_def flatten_three split: sum.splits dest: embedding_Inl)

lemma w3_createModel_fails: "\<exists>e. w3_createModel lib n k d = Inl e"
  by (simp add: w3_createModel_def flatten_two split: sum.splits)

lemma w3_trainModel_begin_rejects:
  "\<exists>e. w3_trainModel_begin lib ds s = (Settled (Rejected e), s\<lparr>w3_result := W3Training\<rparr>)"
proof -
  obtain e where "w3_createModel lib (int (w3_numUsers ds)) (int (w3_numMovies ds)) 20 = Inl e"
    using w3_createModel_fails by blast
  then show ?thesis by (simp add: w3_trainModel_begin_def Let_def)
qed

lemma w3_trainModel_rejects:
  "\<exists>e. w3_trainModel lib ds out s = (Rejected e, s\<lparr>w3_result := W3Training\<rparr>)"
proof -
  obtain e where "w3_trainModel_begin lib ds s = (Settled (Rejected e), s\<lparr>w3_result := W3Training\<rparr>)"
    using w3_trainModel_begin_rejects by blast
  then show ?thesis by (simp add: w3_trainModel_def)
qed

lemma gather_inside: "0 \<le> i \<Longrightarrow> i < int (length t) \<Longrightarrow> gather lib t i = Inr (t ! nat i)"
  by (simp add: gather_def)

lemma toFixed_nonneg: "0 \<le> x \<Longrightarrow> toFixed d x = of_int \<lfloor>x * 10 ^ d + 1 / 2\<rfloor> / 10 ^ d"
  by (simp add: toFixed_def)

lemma toFixed2_bounds:
  assumes "1 \<le> x" "x \<le> 5"
  shows "1 \<le> toFixed 2 x \<and> toFixed 2 x \<le> 5"
proof -
  have "(100::int) \<le> \<lfloor>x * 100 + 1 / 2\<rfloor>" using assms by (simp add: le_floor_iff)
  moreover have "\<lfloor>x * 100 + 1 / 2\<rfloor> \<le> (500::int)" using assms by (simp add: floor_le_iff)
  ultimately have "(100::real) \<le> of_int \<lfloor>x * 100 + 1 / 2\<rfloor> \<and> of_int \<lfloor>x * 100 + 1 / 2\<rfloor> \<le> (500::real)"
    by linarith
  then show ?thesis using assms by (simp add: toFixed_nonneg field_simps)
qed

lemma clamp_number:
  "x \<noteq> NaN \<Longrightarrow> \<exists>r. mathMin (mathMax x (Num 1)) (Num 5) = Num r \<and> 1 \<le> r \<and> r \<le> 5"
  by (cases x) simp_all

lemma ratingMessage_number:
  assumes "x \<noteq> NaN"
  shows "\<exists>r. ratingMessage u l x = PredictedRating u l r \<and> 1 \<le> r \<and> r \<le> 5"
proof -
  from clamp_number[OF assms] obtain r where
    c: "mathMin (mathMax x (Num 1)) (Num 5) = Num r" and b: "1 \<le> r" "r \<le> 5" by blast
  have "ratingMessage u l x = PredictedRating u l (toFixed 2 r)"
    by (simp add: ratingMessage_def c toFixedJs_def)
  with toFixed2_bounds[OF b] show ?thesis by blast
qed

lemma ratingMessage_NaN: "ratingMessage u l NaN = PredictedNaN u l"
  by (simp add: ratingMessage_def toFixedJs_def)


lemma trainModel_begin_idle:
  "\<not> isTraining s \<Longrightarrow>
   trainModel_begin lib ds now s =
     (AwaitingFit (fitRequest ds),
      s\<lparr>isTraining := True, trainingStartTime := Some now,
        result := TrainingOn (length (ratings ds)),
        model := Some \<lparr>userEmbedding = fill (numUsers ds + 1) 15 (initialWeight lib UserLayer),
                       movieEmbedding = fill (numMovies ds + 1) 15 (initialWeight lib MovieLayer),
                       compiled = Some (Adam (1 / 1000), MeanSquaredError)\<rparr>\<rparr>)"
  by (simp add: trainModel_begin_def createModel_positive updateResult_def compile_def Let_def nat_add_distrib)

lemma epochCallbacks_frame:
  "model (epochCallbacks e logs s) = model s \<and>
   isTraining (epochCallbacks e logs s) = isTraining s \<and>
   trainingStartTime (epochCallbacks e logs s) = trainingStartTime s \<and>
   predictBtnDisabled (epochCallbacks e logs s) = predictBtnDisabled s"
  by (induction e logs s rule: epochCallbacks.induct) (simp_all add: onEpochEnd_def updateResult_def)

lemma model_trainModel_resume:
  "model (snd (trainModel_resume out now s)) = map_option (fitted out) (model s)"
  by (simp add: trainModel_resume_def Let_def trainingFinally_def trainingCatch_def updateResult_def
      epochCallbacks_frame split: option.splits)

lemma isTraining_trainModel_resume:
  "\<not> isTraining (snd (trainModel_resume out now s))"
  by (simp add: trainModel_resume_def Let_def trainingFinally_def split: option.splits)

lemma fst_trainModel_resume: "fst (trainModel_resume out now s) = Resolved"
  by (simp add: trainModel_resume_def Let_def split: option.splits)

lemma model_predictRating: "model (predictRating lib ds uSel mSel s) = model s"
  by (simp add: predictRating_def updateResult_def Let_def split: option.splits sum.splits)

lemma reachable_sizes:
  "reachable ds s \<Longrightarrow> model s = Some md \<Longrightarrow>
   length (userEmbedding md) = numUsers ds + 1 \<and> length (movieEmbedding md) = numMovies ds + 1"
proof (induction arbitrary: md rule: reachable.induct)
  case (loaded s)
  then show ?case by simp
next
  case (begun s lib now)
  show ?case
  proof (cases "isTraining s")
    case True
    with begun show ?thesis by (simp add: trainModel_begin_def)
  next
    case False
    with begun.prems show ?thesis
      by (auto simp: trainModel_begin_idle length_fill)
  qed
next
  case (epoch s e l now)
  then show ?case by (simp add: onEpochEnd_def updateResult_def)
next
  case (resumed s out now)
  from resumed.prems obtain md0 where m0: "model s = Some md0" and md: "md = fitted out md0"
    by (auto simp: model_trainModel_resume)
  from resumed.IH[OF m0] show ?case
    by (simp add: md fitted_def length_assign)
next
  case (predicted s lib uSel mSel)
  then show ?case by (simp add: model_predictRating)
qed


lemma numUsers_sampleData: "numUsers sampleData = 3 \<and> numMovies sampleData = 2"
  by (simp add: sampleData_def loadData_def)

lemma trainingPage_eq:
  "trainingPage = \<lparr>model = Some createdModel, isTraining = True, trainingStartTime = Some 0,
      result = TrainingOn 3, predictBtnDisabled = True\<rparr>"
  by (simp add: trainingPage_def trainModel_begin_idle freshPage_def createdModel_def numUsers_sampleData strictLib_def)
     (simp add: sampleData_def loadData_def)

lemma trainModel_idle:
  "\<not> isTraining s \<Longrightarrow>
   trainModel lib ds t0 out t1 s = trainModel_resume out t1 (snd (trainModel_begin lib ds t0 s))"
  by (simp add: trainModel_def trainModel_begin_idle)

lemma startTime_epochCallbacks: "startTime (epochCallbacks e logs s) = startTime s"
  by (simp add: startTime_def epochCallbacks_frame)

lemma result_trainModel_resume:
  "result (snd (trainModel_resume out now s)) =
     (case rejected out of
        Some e \<Rightarrow> TrainingFailed e
      | None \<Rightarrow> TrainedSuccessfully (toFixed 1 ((now - startTime s) / 1000)))"
proof -
  have "startTime (epochCallbacks 0 (epochLogs out) (s\<lparr>model := map_option (fitted out) (model s)\<rparr>)) = startTime s"
    by (simp add: startTime_epochCallbacks) (simp add: startTime_def)
  then show ?thesis
    by (simp add: trainModel_resume_def Let_def trainingFinally_def trainingCatch_def updateResult_def
        split: option.splits)
qed

lemma predictBtn_trainModel_resume:
  "predictBtnDisabled (snd (trainModel_resume out now s)) =
     (if rejected out = None then False else predictBtnDisabled s)"
  by (simp add: trainModel_resume_def Let_def trainingFinally_def trainingCatch_def updateResult_def
      epochCallbacks_frame split: option.splits)

lemma trainingStartTime_trainModel_resume:
  "trainingStartTime (snd (trainModel_resume out now s)) = trainingStartTime s"
  by (simp add: trainModel_resume_def Let_def trainingFinally_def trainingCatch_def updateResult_def
      epochCallbacks_frame split: option.splits)

lemma reachable_trainModel:
  assumes "reachable ds s"
  shows "reachable ds (snd (trainModel lib ds t0 out t1 s))"
proof (cases "isTraining s")
  case True
  then show ?thesis using assms by (simp add: trainModel_def trainModel_begin_def)
next
  case False
  have "reachable ds (snd (trainModel_begin lib ds t0 s))"
    using assms by (rule reachable.begun)
  moreover have "isTraining (snd (trainModel_begin lib ds t0 s))"
    using False by (simp add: trainModel_begin_idle)
  ultimately have "reachable ds (snd (trainModel_resume out t1 (snd (trainModel_begin lib ds t0 s))))"
    by (rule reachable.resumed)
  then show ?thesis using False by (simp add: trainModel_idle)
qed

lemma reachable_freshPage: "reachable ds freshPage"
  by (rule reachable.loaded) (simp_all add: freshPage_def)

lemma state_eqI:
  "model a = model b \<Longrightarrow> isTraining a = isTraining b \<Longrightarrow> trainingStartTime a = trainingStartTime b \<Longrightarrow>
   result a = result b \<Longrightarrow> predictBtnDisabled a = predictBtnDisabled b \<Longrightarrow> (a::state) = b"
  by simp

lemma trainedPage_eq:
  "trainedPage = \<lparr>model = Some trainedModel, isTraining = False, trainingStartTime = Some 0,
      result = TrainedSuccessfully 3, predictBtnDisabled = False\<rparr>"
proof -
  have t: "trainedPage = snd (trainModel_resume fitDone 3000 trainingPage)"
    by (simp add: trainedPage_def trainingPage_def trainModel_idle freshPage_def)
  show ?thesis
    unfolding t
    by (rule state_eqI)
       (simp_all add: model_trainModel_resume isTraining_trainModel_resume result_trainModel_resume
          predictBtn_trainModel_resume trainingStartTime_trainModel_resume trainingPage_eq
          fitted_def createdModel_def trainedModel_def assign_fill fitDone_def startTime_def toFixed_def)
qed

lemma nanPage_eq:
  "nanPage = \<lparr>model = Some nanModel, isTraining = False, trainingStartTime = Some 0,
      result = TrainedSuccessfully 3, predictBtnDisabled = False\<rparr>"
proof -
  have t: "nanPage = snd (trainModel_resume fitNaN 3000 trainingPage)"
    by (simp add: nanPage_def trainingPage_def trainModel_idle freshPage_def)
  show ?thesis
    unfolding t
    by (rule state_eqI)
       (simp_all add: model_trainModel_resume isTraining_trainModel_resume result_trainModel_resume
          predictBtn_trainModel_resume trainingStartTime_trainModel_resume trainingPage_eq
          fitted_def createdModel_def nanModel_def assign_fill fitNaN_def startTime_def toFixed_def)
qed

lemma failedPage_eq:
  "failedPage = \<lparr>model = Some createdModel, isTraining = False, trainingStartTime = Some 0,
      result = TrainingFailed ''index is not in the table'', predictBtnDisabled = True\<rparr>"
proof -
  have t: "failedPage = snd (trainModel_resume fitBroken 3000 trainingPage)"
    by (simp add: failedPage_def trainingPage_def trainModel_idle freshPage_def)
  show ?thesis
    unfolding t
    by (rule state_eqI)
       (simp_all add: model_trainModel_resume isTraining_trainModel_resume result_trainModel_resume
          predictBtn_trainModel_resume trainingStartTime_trainModel_resume trainingPage_eq
          fitted_def createdModel_def assign_fill fitBroken_def)
qed

lemma reachable_trainingPage: "reachable sampleData trainingPage"
  unfolding trainingPage_def by (rule reachable.begun) (rule reachable_freshPage)

lemma reachable_trainedPage: "reachable sampleData trainedPage"
  unfolding trainedPage_def by (rule reachable_trainModel) (rule reachable_freshPage)

lemma foldl_jsAdd_const:
  "foldl jsAdd (Num z) (map2 jsMul (replicate n (Num a)) (replicate n (Num b))) = Num (z + real n * (a * b))"
  by (induction n arbitrary: z) (simp_all add: algebra_simps)

lemma exactDot_const:
  "exactDot (map (\<lambda>j. Num a) [0..<c]) (map (\<lambda>j. Num b) [0..<c]) = Num (real c * (a * b))"
  using foldl_jsAdd_const[of 0 c a b] by (simp add: exactDot_def map_replicate_const)

lemma foldl_jsAdd_NaN: "foldl jsAdd NaN xs = NaN"
  by (induction xs) simp_all

lemma predictRating_ready:
  assumes "model s = Some md" "u \<noteq> 0" "m \<noteq> 0"
  shows "predictRating lib ds (Some u) (Some m) s =
     updateResult
       (case predict lib md u m of
          Inl e \<Rightarrow> PredictionFailed e
        | Inr r \<Rightarrow> ratingMessage u (movieTitle ds m) r) s"
  using assms by (simp add: predictRating_def updateResult_def Let_def split: sum.splits)

lemma predict_inside:
  assumes "0 \<le> u" "u < int (length (userEmbedding md))" "0 \<le> m" "m < int (length (movieEmbedding md))"
  shows "predict lib md u m = Inr (dotLayer lib (userEmbedding md ! nat u) (movieEmbedding md ! nat m))"
  using assms by (simp add: predict_def gather_inside)


lemma predictRating_inside:
  assumes "reachable ds s" and "model s = Some md"
    and "1 \<le> u" and "u \<le> int (numUsers ds)" and "1 \<le> m" and "m \<le> int (numMovies ds)"
  shows "result (predictRating lib ds (Some u) (Some m) s) =
           ratingMessage u (movieTitle ds m)
             (dotLayer lib (userEmbedding md ! nat u) (movieEmbedding md ! nat m))"
proof -
  from reachable_sizes[OF assms(1,2)]
  have len: "length (userEmbedding md) = numUsers ds + 1" "length (movieEmbedding md) = numMovies ds + 1"
    by simp_all
  have p: "predict lib md u m = Inr (dotLayer lib (userEmbedding md ! nat u) (movieEmbedding md ! nat m))"
    using assms(3-6) len by (intro predict_inside) simp_all
  have "u \<noteq> 0" "m \<noteq> 0" using assms(3,5) by simp_all
  from predictRating_ready[OF assms(2) this]
  show ?thesis by (simp add: p updateResult_def)
qed

lemma movieTitle_sample: "movieTitle sampleData 1 = Titled ''Toy Story (1995)''"
  by (simp add: movieTitle_def sampleData_def loadData_def)

lemma exactDot_NaN_rows: "0 < c \<Longrightarrow> exactDot (map (\<lambda>j. NaN) [0..<c]) (map (\<lambda>j. NaN) [0..<c]) = NaN"
  by (cases c) (simp_all add: exactDot_def map_replicate_const foldl_jsAdd_NaN)

lemma ratingMessage_not_ModelNotReady: "ratingMessage u l x \<noteq> ModelNotReady"
  by (simp add: ratingMessage_def split: jsnum.splits)



lemma sorted_populateUserDropdown:
  "sorted (populateUserDropdown ds) \<and> distinct (populateUserDropdown ds)
   \<and> set (populateUserDropdown ds) = userId ` set (ratings ds)"
  by (simp add: populateUserDropdown_def)

section \<open>The claims\<close>

text \<open>
  C3 (amended). A call of \<^verbatim>\<open>trainModel\<close> that finds the flag clear returns with the flag
  clear, whether fit resolved or rejected. When fit rejects, the error is caught inside the
  call and shown on the page as the training-failed message with the error's text; the call
  itself completes normally, so no error reaches its caller.
\<close>

theorem trainModel_clears_flag:
  assumes "\<not> isTraining s"
  shows "fst (trainModel lib ds t0 out t1 s) = Resolved
         \<and> \<not> isTraining (snd (trainModel lib ds t0 out t1 s))
         \<and> result (snd (trainModel lib ds t0 out t1 s)) =
             (case rejected out of
                Some e \<Rightarrow> TrainingFailed e
              | None \<Rightarrow> TrainedSuccessfully (toFixed 1 ((t1 - t0) / 1000)))"
proof -
  have "startTime (snd (trainModel_begin lib ds t0 s)) = t0"
    using assms by (simp add: trainModel_begin_idle startTime_def)
  then show ?thesis
    using assms
    by (simp add: trainModel_idle fst_trainModel_resume isTraining_trainModel_resume
        result_trainModel_resume split: option.splits)
qed

theorem trainModel_clears_flag_witness:
  "\<not> isTraining freshPage
   \<and> fst (trainModel strictLib sampleData 0 fitBroken 3000 freshPage) = Resolved
   \<and> \<not> isTraining failedPage
   \<and> result failedPage = TrainingFailed ''index is not in the table''"
proof -
  have h: "\<not> isTraining freshPage" by (simp add: freshPage_def)
  from trainModel_clears_flag[OF h, of strictLib sampleData 0 fitBroken 3000]
  show ?thesis using h by (simp add: failedPage_def fitBroken_def)
qed

text \<open>
  When fit rejects, the call still resolves: its caller sees no error. The failure message is
  put on the page by the catch block, at a moment when the flag is still set.
\<close>

theorem trainModel_clears_flag_counterexample:
  "trainModel strictLib sampleData 0 fitBroken 3000 freshPage = (Resolved, failedPage)
   \<and> rejected fitBroken = Some ''index is not in the table''
   \<and> isTraining (trainingCatch ''index is not in the table'' trainingPage)"
proof -
  have "fst (trainModel strictLib sampleData 0 fitBroken 3000 freshPage) = Resolved"
    by (simp add: trainModel_idle freshPage_def fst_trainModel_resume)
  then have "trainModel strictLib sampleData 0 fitBroken 3000 freshPage = (Resolved, failedPage)"
    by (simp add: failedPage_def prod_eq_iff)
  then show ?thesis
    by (simp add: fitBroken_def trainingCatch_def updateResult_def trainingPage_eq)
qed

text \<open>
  C5 (amended). \<^verbatim>\<open>predictRating\<close> answers with the not-ready message exactly when no
  model object exists. \<^verbatim>\<open>trainModel\<close> installs the model before fit starts and leaves
  it in place when fit fails, so the message is given only before the first model has been
  created. The predict button is enabled by a successful run only.
\<close>

theorem predictRating_not_ready:
  assumes "\<not> isTraining s0"
  shows "(result (predictRating lib ds uSel mSel s) = ModelNotReady) = (model s = None)
       \<and> isTraining (snd (trainModel_begin lib ds t0 s0))
       \<and> model (snd (trainModel_begin lib ds t0 s0)) \<noteq> None
       \<and> model (snd (trainModel lib ds t0 out t1 s0)) \<noteq> None
       \<and> predictBtnDisabled (snd (trainModel_begin lib ds t0 s0)) = predictBtnDisabled s0
       \<and> predictBtnDisabled (snd (trainModel lib ds t0 out t1 s0)) =
           (if rejected out = None then False else predictBtnDisabled s0)"
proof -
  have a: "(result (predictRating lib ds uSel mSel s) = ModelNotReady) = (model s = None)"
    by (simp add: predictRating_def updateResult_def Let_def ratingMessage_not_ModelNotReady
        split: option.splits sum.splits)
  show ?thesis
    using assms
    by (simp add: a trainModel_idle model_trainModel_resume predictBtn_trainModel_resume
        trainModel_begin_idle)
qed

theorem predictRating_not_ready_witness:
  "\<not> isTraining freshPage
   \<and> result (predictRating strictLib sampleData (Some 1) (Some 1) freshPage) = ModelNotReady
   \<and> model freshPage = None
   \<and> isTraining trainingPage \<and> model trainingPage \<noteq> None \<and> model failedPage \<noteq> None
   \<and> predictBtnDisabled trainingPage \<and> predictBtnDisabled failedPage \<and> \<not> predictBtnDisabled trainedPage"
proof -
  have h: "\<not> isTraining freshPage" by (simp add: freshPage_def)
  have m: "model freshPage = None" by (simp add: freshPage_def)
  from predictRating_not_ready[OF h, of strictLib sampleData "Some 1" "Some 1" freshPage 0 fitBroken 3000]
  show ?thesis
    using h m by (simp add: trainingPage_def failedPage_def fitBroken_def freshPage_def trainedPage_eq)
qed

text \<open>
  While the first run awaits fit, and after a run whose fit was rejected, a model is in place
  and \<^verbatim>\<open>predictRating\<close> displays a rating (0.15 from the initial weights, clamped to 1).
\<close>

theorem predictRating_not_ready_counterexample:
  "isTraining trainingPage
   \<and> result (predictRating strictLib sampleData (Some 1) (Some 1) trainingPage) =
       PredictedRating 1 (Titled ''Toy Story (1995)'') 1
   \<and> result failedPage = TrainingFailed ''index is not in the table''
   \<and> result (predictRating strictLib sampleData (Some 1) (Some 1) failedPage) =
       PredictedRating 1 (Titled ''Toy Story (1995)'') 1"
proof -
  have d: "exactDot (userEmbedding createdModel ! Suc 0) (movieEmbedding createdModel ! Suc 0) = Num (3 / 20)"
    by (simp add: createdModel_def nth_fill exactDot_const)
  have l: "length (userEmbedding createdModel) = 4" "length (movieEmbedding createdModel) = 3"
    by (simp_all add: createdModel_def length_fill)
  have p: "predict strictLib createdModel 1 1 = Inr (Num (3 / 20))"
    using predict_inside[of 1 createdModel 1 strictLib] by (simp add: l d strictLib_def)
  have r: "ratingMessage 1 (Titled ''Toy Story (1995)'') (Num (3 / 20)) =
      PredictedRating 1 (Titled ''Toy Story (1995)'') 1"
    by (simp add: ratingMessage_def toFixedJs_def toFixed_def)
  have t: "movieTitle sampleData 1 = Titled ''Toy Story (1995)''"
    by (simp add: movieTitle_def sampleData_def loadData_def)
  have f: "toFixed 2 1 = 1" by (simp add: toFixed_def)
  have a: "result (predictRating strictLib sampleData (Some 1) (Some 1) trainingPage) =
       PredictedRating 1 (Titled ''Toy Story (1995)'') 1"
    using predictRating_ready[of trainingPage createdModel 1 1 strictLib sampleData]
    by (simp add: trainingPage_eq p t r updateResult_def)
  have b: "result (predictRating strictLib sampleData (Some 1) (Some 1) failedPage) =
       PredictedRating 1 (Titled ''Toy Story (1995)'') 1"
    using predictRating_ready[of failedPage createdModel 1 1 strictLib sampleData]
    by (simp add: failedPage_eq p t r updateResult_def)
  show ?thesis using a b by (simp add: trainingPage_eq failedPage_eq)
qed

text \<open>
  C1 (amended). In the variant with the training flag, in every state the page reaches with
  a model in place, for every user id from 1 to \<open>numUsers\<close> and every movie id from 1
  to \<open>numMovies\<close>, \<^verbatim>\<open>predictRating\<close> hands the rows stored under these two ids to
  the dot layer and displays its output clamped by \<^verbatim>\<open>Math.min(Math.max(x, 1), 5)\<close> and
  printed with two decimals. Whenever that output is not NaN, the displayed number lies
  between 1 and 5. In the week3 variant no call of \<^verbatim>\<open>trainModel\<close> completes: each is
  rejected inside \<^verbatim>\<open>createModel\<close> and leaves the model variable as it was.
\<close>

theorem predictRating_clamped:
  assumes "reachable ds s" and "model s = Some md"
    and "1 \<le> u" and "u \<le> int (numUsers ds)" and "1 \<le> m" and "m \<le> int (numMovies ds)"
  shows "result (predictRating lib ds (Some u) (Some m) s) =
           ratingMessage u (movieTitle ds m)
             (dotLayer lib (userEmbedding md ! nat u) (movieEmbedding md ! nat m))
       \<and> (\<forall>x. dotLayer lib (userEmbedding md ! nat u) (movieEmbedding md ! nat m) = Num x \<longrightarrow>
            result (predictRating lib ds (Some u) (Some m) s) =
              PredictedRating u (movieTitle ds m) (toFixed 2 (min (max x 1) 5)))
       \<and> (dotLayer lib (userEmbedding md ! nat u) (movieEmbedding md ! nat m) \<noteq> NaN \<longrightarrow>
            (\<exists>r. result (predictRating lib ds (Some u) (Some m) s) =
                   PredictedRating u (movieTitle ds m) r \<and> 1 \<le> r \<and> r \<le> 5))
       \<and> (\<exists>e. w3_trainModel lib ds3 out s3 = (Rejected e, s3\<lparr>w3_result := W3Training\<rparr>))"
proof -
  let ?d = "dotLayer lib (userEmbedding md ! nat u) (movieEmbedding md ! nat m)"
  have a: "result (predictRating lib ds (Some u) (Some m) s) = ratingMessage u (movieTitle ds m) ?d"
    using assms by (rule predictRating_inside)
  have b: "\<forall>x. ?d = Num x \<longrightarrow>
            result (predictRating lib ds (Some u) (Some m) s) =
              PredictedRating u (movieTitle ds m) (toFixed 2 (min (max x 1) 5))"
    by (simp add: a ratingMessage_def toFixedJs_def)
  have c: "?d \<noteq> NaN \<longrightarrow>
            (\<exists>r. result (predictRating lib ds (Some u) (Some m) s) =
                   PredictedRating u (movieTitle ds m) r \<and> 1 \<le> r \<and> r \<le> 5)"
    using ratingMessage_number[of ?d u "movieTitle ds m"] by (simp add: a)
  from a b c w3_trainModel_rejects[of lib ds3 out s3] show ?thesis by blast
qed

theorem predictRating_clamped_witness:
  "reachable sampleData trainedPage \<and> model trainedPage = Some trainedModel
   \<and> (1::int) \<le> 2 \<and> 2 \<le> int (numUsers sampleData) \<and> (1::int) \<le> 1 \<and> 1 \<le> int (numMovies sampleData)
   \<and> dotLayer strictLib (userEmbedding trainedModel ! 2) (movieEmbedding trainedModel ! 1) = Num (15 / 4)
   \<and> result (predictRating strictLib sampleData (Some 2) (Some 1) trainedPage) =
       PredictedRating 2 (Titled ''Toy Story (1995)'') (15 / 4)"
proof -
  have h: "reachable sampleData trainedPage" "model trainedPage = Some trainedModel"
      "(1::int) \<le> 2" "2 \<le> int (numUsers sampleData)" "(1::int) \<le> 1" "1 \<le> int (numMovies sampleData)"
    by (rule reachable_trainedPage) (simp_all add: trainedPage_eq numUsers_sampleData)
  have d: "dotLayer strictLib (userEmbedding trainedModel ! 2) (movieEmbedding trainedModel ! Suc 0) = Num (15 / 4)"
    by (simp add: strictLib_def trainedModel_def nth_fill exactDot_const)
  have r: "ratingMessage 2 (Titled ''Toy Story (1995)'') (Num (15 / 4)) =
      PredictedRating 2 (Titled ''Toy Story (1995)'') (15 / 4)"
    by (simp add: ratingMessage_def toFixedJs_def toFixed_def)
  from predictRating_clamped[OF h, of strictLib]
  show ?thesis using h by (simp add: movieTitle_sample d r)
qed

text \<open>
  User id 0 is an index of the user table, and the call is answered with the please-select
  message. After a run whose fit resolved and left NaN weights, the prediction for user 1 and
  movie 1 is displayed as NaN.
\<close>

theorem predictRating_clamped_counterexample:
  "model trainedPage = Some trainedModel
   \<and> gather strictLib (userEmbedding trainedModel) 0 = Inr (userEmbedding trainedModel ! 0)
   \<and> result (predictRating strictLib sampleData (Some 0) (Some 1) trainedPage) = PleaseSelectBoth
   \<and> trainModel strictLib sampleData 0 fitNaN 3000 freshPage = (Resolved, nanPage)
   \<and> result nanPage = TrainedSuccessfully 3
   \<and> result (predictRating strictLib sampleData (Some 1) (Some 1) nanPage) =
       PredictedNaN 1 (Titled ''Toy Story (1995)'')"
proof -
  have a: "gather strictLib (userEmbedding trainedModel) 0 = Inr (userEmbedding trainedModel ! 0)"
    by (simp add: gather_def trainedModel_def length_fill)
  have b: "result (predictRating strictLib sampleData (Some 0) (Some 1) trainedPage) = PleaseSelectBoth"
    by (simp add: predictRating_def trainedPage_eq updateResult_def)
  have "fst (trainModel strictLib sampleData 0 fitNaN 3000 freshPage) = Resolved"
    by (simp add: trainModel_idle freshPage_def fst_trainModel_resume)
  then have c: "trainModel strictLib sampleData 0 fitNaN 3000 freshPage = (Resolved, nanPage)"
    by (simp add: nanPage_def prod_eq_iff)
  have l: "length (userEmbedding nanModel) = 4" "length (movieEmbedding nanModel) = 3"
    by (simp_all add: nanModel_def length_fill)
  have d: "dotLayer strictLib (userEmbedding nanModel ! Suc 0) (movieEmbedding nanModel ! Suc 0) = NaN"
    by (simp add: strictLib_def nanModel_def nth_fill exactDot_NaN_rows)
  have p: "predict strictLib nanModel 1 1 = Inr NaN"
    using predict_inside[of 1 nanModel 1 strictLib] by (simp add: l d)
  have e: "result (predictRating strictLib sampleData (Some 1) (Some 1) nanPage) =
       PredictedNaN 1 (Titled ''Toy Story (1995)'')"
    using predictRating_ready[of nanPage nanModel 1 1 strictLib sampleData]
    by (simp add: nanPage_eq p movieTitle_sample ratingMessage_NaN updateResult_def)
  show ?thesis using a b c e by (simp add: trainedPage_eq nanPage_eq)
qed

text \<open>
  C2. A call of \<^verbatim>\<open>trainModel\<close> made while the flag is set returns at once and leaves
  the model, the flag, the start time, the result display and the button as they were; it
  starts no second fit and raises no error. In the week3 variant, which has no flag, no call
  gets as far as awaiting fit, so none is ever in progress when another one is made.
\<close>

theorem trainModel_single_flight:
  assumes "isTraining s"
  shows "trainModel_begin lib ds now s = (Settled Resolved, s)
         \<and> trainModel lib ds t0 out t1 s = (Resolved, s)
         \<and> (\<exists>e. w3_trainModel_begin lib ds3 s3 = (Settled (Rejected e), s3\<lparr>w3_result := W3Training\<rparr>))"
  using assms w3_trainModel_begin_rejects[of lib ds3 s3]
  by (simp add: trainModel_def trainModel_begin_def)

theorem trainModel_single_flight_witness:
  "isTraining trainingPage
   \<and> trainModel_begin strictLib sampleData 500 trainingPage = (Settled Resolved, trainingPage)
   \<and> trainModel strictLib sampleData 500 fitDone 3000 trainingPage = (Resolved, trainingPage)
   \<and> snd (w3_trainModel_begin strictLib w3_sampleData w3_freshPage) =
       \<lparr>w3_model = None, w3_result = W3Training\<rparr>
   \<and> (case fst (w3_trainModel_begin strictLib w3_sampleData w3_freshPage) of
        Settled Resolved \<Rightarrow> False
      | Settled (Rejected e) \<Rightarrow> True
      | AwaitingFit call \<Rightarrow> False)"
proof -
  have h: "isTraining trainingPage" by (simp add: trainingPage_eq)
  from trainModel_single_flight[OF h, of strictLib sampleData 500 500 fitDone 3000 w3_sampleData w3_freshPage]
  show ?thesis using h by (auto simp: w3_freshPage_def)
qed




text \<open>
  C6 (amended). \<^verbatim>\<open>createModel\<close> of the variant with the training flag validates
  nothing itself. For positive arguments it returns a model whose tables have
  \<open>numUsers + 1\<close> and \<open>numMovies + 1\<close> rows of \<open>latentDim\<close> entries each. It fails
  only with an error of the library's embedding layer for one of the sizes it is handed;
  with a library that refuses every non-positive size, it fails exactly when
  \<open>numUsers + 1\<close>, \<open>numMovies + 1\<close> or \<open>latentDim\<close> is not positive.
\<close>

theorem createModel_table_sizes:
  assumes "0 < n" and "0 < k" and "0 < d"
  shows "(\<exists>md. createModel lib n k d = Inr md
            \<and> length (userEmbedding md) = nat n + 1 \<and> length (movieEmbedding md) = nat k + 1
            \<and> (\<forall>row\<in>set (userEmbedding md) \<union> set (movieEmbedding md). length row = nat d))
       \<and> (case createModel lib n' k' d' of
            Inl e \<Rightarrow> dimError lib (n' + 1) d' = Some e \<or> dimError lib (k' + 1) d' = Some e
          | Inr md \<Rightarrow> True)
       \<and> ((\<forall>i j. i \<le> 0 \<or> j \<le> 0 \<longrightarrow> dimError lib i j \<noteq> None) \<longrightarrow>
            ((\<exists>e. createModel lib n' k' d' = Inl e) \<longleftrightarrow> (n' + 1 \<le> 0 \<or> k' + 1 \<le> 0 \<or> d' \<le> 0)))"
proof -
  have "0 \<le> n" "0 \<le> k" using assms by simp_all
  from createModel_positive[OF this assms(3), of lib] assms
  have a: "\<exists>md. createModel lib n k d = Inr md
            \<and> length (userEmbedding md) = nat n + 1 \<and> length (movieEmbedding md) = nat k + 1
            \<and> (\<forall>row\<in>set (userEmbedding md) \<union> set (movieEmbedding md). length row = nat d)"
    by (auto simp: length_fill nat_add_distrib dest: fill_row_length)
  have c: "(case createModel lib n' k' d' of
            Inl e \<Rightarrow> dimError lib (n' + 1) d' = Some e \<or> dimError lib (k' + 1) d' = Some e
          | Inr md \<Rightarrow> True)"
    by (auto split: sum.splits dest: createModel_Inl)
  have e: "(\<exists>e. createModel lib n' k' d' = Inl e) \<longleftrightarrow> (n' + 1 \<le> 0 \<or> k' + 1 \<le> 0 \<or> d' \<le> 0)"
    if r: "\<forall>i j. i \<le> 0 \<or> j \<le> 0 \<longrightarrow> dimError lib i j \<noteq> None"
  proof
    assume "\<exists>e. createModel lib n' k' d' = Inl e"
    then obtain e where "createModel lib n' k' d' = Inl e" by blast
    then show "n' + 1 \<le> 0 \<or> k' + 1 \<le> 0 \<or> d' \<le> 0"
      by (auto simp: createModel_def flatten_three split: sum.splits dest: embedding_Inl)
  next
    assume b: "n' + 1 \<le> 0 \<or> k' + 1 \<le> 0 \<or> d' \<le> 0"
    show "\<exists>e. createModel lib n' k' d' = Inl e"
    proof (cases "n' + 1 \<le> 0 \<or> d' \<le> 0")
      case True
      with r obtain e where "dimError lib (n' + 1) d' = Some e" by (meson option.exhaust)
      with True have "embedding lib UserLayer (n' + 1) d' = Inl e" by (intro embedding_refused) auto
      then show ?thesis by (simp add: createModel_def)
    next
      case False
      with b have k: "k' + 1 \<le> 0" by blast
      with r obtain e where "dimError lib (k' + 1) d' = Some e" by (meson option.exhaust)
      with k have m: "embedding lib MovieLayer (k' + 1) d' = Inl e" by (intro embedding_refused) auto
      from False have "embedding lib UserLayer (n' + 1) d' =
          Inr (fill (nat (n' + 1)) (nat d') (initialWeight lib UserLayer))"
        by (intro embedding_positive) auto
      with m show ?thesis by (simp add: createModel_def)
    qed
  qed
  from a c e show ?thesis by blast
qed

theorem createModel_table_sizes_witness:
  "(0::int) < 3 \<and> (0::int) < 2 \<and> (0::int) < 15
   \<and> (case createModel strictLib 3 2 15 of
        Inl e \<Rightarrow> False
      | Inr md \<Rightarrow> length (userEmbedding md) = 4 \<and> length (movieEmbedding md) = 3
                 \<and> length (userEmbedding md ! 0) = 15)
   \<and> createModel strictLib (- 1) 2 15 = Inl ''size is not a positive integer''
   \<and> dimError strictLib 0 15 = Some ''size is not a positive integer''"
proof -
  have h: "(0::int) < 3" "(0::int) < 2" "(0::int) < 15" by simp_all
  have w: "createModel strictLib (- 1) 2 15 = Inl ''size is not a positive integer''"
    by (simp add: createModel_def embedding_def strictLib_def)
  from createModel_table_sizes[OF h, of strictLib "- 1" 2 15]
  show ?thesis using w by (auto simp: nth_fill createModel_positive strictLib_def)
qed

text \<open>
  Three users and two movies give tables of four and three rows, and zero users and zero
  movies give one-row tables without any failure, even with a library that refuses every
  non-positive size. The week3 \<^verbatim>\<open>createModel\<close> returns no model for positive sizes.
\<close>

theorem createModel_table_sizes_counterexample:
  "(case createModel strictLib 3 2 15 of
      Inl e \<Rightarrow> False
    | Inr md \<Rightarrow> length (userEmbedding md) = 4 \<and> length (movieEmbedding md) = 3)
   \<and> dimError strictLib 0 15 = Some ''size is not a positive integer''
   \<and> (case createModel strictLib 0 0 15 of
        Inl e \<Rightarrow> False
      | Inr md \<Rightarrow> length (userEmbedding md) = 1 \<and> length (movieEmbedding md) = 1)
   \<and> (case w3_createModel strictLib 3 2 20 of
        Inl e \<Rightarrow> True
      | Inr md \<Rightarrow> False)"
  by (simp add: createModel_positive length_fill strictLib_def w3_createModel_def embedding_positive
      flatten_two)



text \<open>
  C9 (amended). In the variant with the training flag, a call of \<^verbatim>\<open>predictRating\<close>
  whose user id or movie id is 0 only sets the result display, whatever the library and the
  tables are: to the please-select message when a model is in place, to the not-ready message
  when there is none. The model is not consulted, although index 0 is a row of both tables in
  every state the page reaches.
\<close>

theorem predictRating_zero_id:
  assumes "u = 0 \<or> m = 0"
  shows "predictRating lib ds (Some u) (Some m) s =
           updateResult (if model s = None then ModelNotReady else PleaseSelectBoth) s
       \<and> (\<forall>md. reachable ds s \<and> model s = Some md \<longrightarrow>
            gather lib (userEmbedding md) 0 = Inr (userEmbedding md ! 0)
            \<and> gather lib (movieEmbedding md) 0 = Inr (movieEmbedding md ! 0))"
proof -
  have a: "predictRating lib ds (Some u) (Some m) s =
           updateResult (if model s = None then ModelNotReady else PleaseSelectBoth) s"
    using assms by (auto simp: predictRating_def split: option.splits)
  have b: "gather lib (userEmbedding md) 0 = Inr (userEmbedding md ! 0)
            \<and> gather lib (movieEmbedding md) 0 = Inr (movieEmbedding md ! 0)"
    if "reachable ds s" "model s = Some md" for md
    using reachable_sizes[OF that] by (simp add: gather_def)
  from a b show ?thesis by blast
qed

theorem predictRating_zero_id_witness:
  "model trainedPage = Some trainedModel \<and> reachable sampleData trainedPage
   \<and> predictRating strictLib sampleData (Some 0) (Some 2) trainedPage =
       trainedPage\<lparr>result := PleaseSelectBoth\<rparr>
   \<and> predictRating strictLib sampleData (Some 3) (Some 0) trainedPage =
       trainedPage\<lparr>result := PleaseSelectBoth\<rparr>
   \<and> predictRating strictLib sampleData (Some 0) (Some 2) freshPage =
       freshPage\<lparr>result := ModelNotReady\<rparr>
   \<and> gather strictLib (userEmbedding trainedModel) 0 = Inr (userEmbedding trainedModel ! 0)
   \<and> gather strictLib (movieEmbedding trainedModel) 0 = Inr (movieEmbedding trainedModel ! 0)"
proof -
  have h: "model trainedPage = Some trainedModel" by (simp add: trainedPage_eq)
  have f: "model freshPage = None" by (simp add: freshPage_def)
  have z1: "(0::int) = 0 \<or> (2::int) = 0" and z2: "(3::int) = 0 \<or> (0::int) = 0" by simp_all
  from predictRating_zero_id[OF z1, of strictLib sampleData trainedPage]
       predictRating_zero_id[OF z2, of strictLib sampleData trainedPage]
       predictRating_zero_id[OF z1, of strictLib sampleData freshPage]
       reachable_trainedPage h f
  show ?thesis by (simp add: updateResult_def)
qed

text \<open>Before any model exists, a call with user id 0 shows the not-ready message.\<close>

theorem predictRating_zero_id_counterexample:
  "model freshPage = None
   \<and> result (predictRating strictLib sampleData (Some 0) (Some 1) freshPage) = ModelNotReady
   \<and> result (predictRating strictLib sampleData (Some 0) (Some 1) freshPage) \<noteq> PleaseSelectBoth"
  by (simp add: predictRating_def freshPage_def updateResult_def)

text \<open>
  C10. In every state the page reaches, the model's tables have \<open>numUsers + 1\<close> and
  \<open>numMovies + 1\<close> rows, as allocated when training begins, so every user id from 1 to
  \<open>numUsers\<close> and every movie id from 1 to \<open>numMovies\<close> is an index of its table, and
  \<^verbatim>\<open>predictRating\<close> displays what the dot layer makes of the rows stored under these
  very ids. The ids handed to fit are the ids of the ratings, unshifted, and the values of
  the user dropdown are these ids, each once, in ascending order.
\<close>

theorem raw_ids_within_tables:
  assumes "reachable ds s" and "model s = Some md"
    and "1 \<le> u" and "u \<le> int (numUsers ds)" and "1 \<le> m" and "m \<le> int (numMovies ds)"
    and "\<not> isTraining s0"
  shows "length (userEmbedding md) = numUsers ds + 1
       \<and> length (movieEmbedding md) = numMovies ds + 1
       \<and> u < int (length (userEmbedding md)) \<and> m < int (length (movieEmbedding md))
       \<and> result (predictRating lib ds (Some u) (Some m) s) =
           ratingMessage u (movieTitle ds m)
             (dotLayer lib (userEmbedding md ! nat u) (movieEmbedding md ! nat m))
       \<and> (\<exists>call. fst (trainModel_begin lib ds now s0) = AwaitingFit call
            \<and> userInputs call = map userId (ratings ds)
            \<and> movieInputs call = map movieId (ratings ds))
       \<and> (\<exists>md0. model (snd (trainModel_begin lib ds now s0)) = Some md0
            \<and> length (userEmbedding md0) = numUsers ds + 1
            \<and> length (movieEmbedding md0) = numMovies ds + 1)
       \<and> sorted (populateUserDropdown ds) \<and> distinct (populateUserDropdown ds)
       \<and> set (populateUserDropdown ds) = userId ` set (ratings ds)"
proof -
  from reachable_sizes[OF assms(1,2)]
  have len: "length (userEmbedding md) = numUsers ds + 1" "length (movieEmbedding md) = numMovies ds + 1"
    by simp_all
  have inside: "u < int (length (userEmbedding md)) \<and> m < int (length (movieEmbedding md))"
    using assms(4,6) len by simp
  have p: "result (predictRating lib ds (Some u) (Some m) s) =
           ratingMessage u (movieTitle ds m)
             (dotLayer lib (userEmbedding md ! nat u) (movieEmbedding md ! nat m))"
    using assms(1-6) by (rule predictRating_inside)
  have t: "(\<exists>call. fst (trainModel_begin lib ds now s0) = AwaitingFit call
            \<and> userInputs call = map userId (ratings ds)
            \<and> movieInputs call = map movieId (ratings ds))
       \<and> (\<exists>md0. model (snd (trainModel_begin lib ds now s0)) = Some md0
            \<and> length (userEmbedding md0) = numUsers ds + 1
            \<and> length (movieEmbedding md0) = numMovies ds + 1)"
    using assms(7) by (simp add: trainModel_begin_idle fitRequest_def length_fill)
  from len inside p t sorted_populateUserDropdown[of ds] show ?thesis by simp
qed

theorem raw_ids_within_tables_witness:
  "reachable sampleData trainedPage \<and> model trainedPage = Some trainedModel
   \<and> (1::int) \<le> 3 \<and> 3 \<le> int (numUsers sampleData) \<and> (1::int) \<le> 2 \<and> 2 \<le> int (numMovies sampleData)
   \<and> \<not> isTraining freshPage
   \<and> length (userEmbedding trainedModel) = 4 \<and> length (movieEmbedding trainedModel) = 3
   \<and> result (predictRating strictLib sampleData (Some 3) (Some 2) trainedPage) =
       PredictedRating 3 (Titled ''GoldenEye (1995)'') (15 / 4)
   \<and> populateUserDropdown sampleData = [1, 2, 3]"
proof -
  have h: "reachable sampleData trainedPage" "model trainedPage = Some trainedModel"
      "(1::int) \<le> 3" "3 \<le> int (numUsers sampleData)" "(1::int) \<le> 2" "2 \<le> int (numMovies sampleData)"
      "\<not> isTraining freshPage"
    by (rule reachable_trainedPage) (simp_all add: trainedPage_eq numUsers_sampleData freshPage_def)
  have d: "dotLayer strictLib (userEmbedding trainedModel ! 3) (movieEmbedding trainedModel ! 2) = Num (15 / 4)"
    by (simp add: strictLib_def trainedModel_def nth_fill exactDot_const)
  have r: "ratingMessage 3 (Titled ''GoldenEye (1995)'') (Num (15 / 4)) =
      PredictedRating 3 (Titled ''GoldenEye (1995)'') (15 / 4)"
    by (simp add: ratingMessage_def toFixedJs_def toFixed_def)
  have t: "movieTitle sampleData 2 = Titled ''GoldenEye (1995)''"
    by (simp add: movieTitle_def sampleData_def loadData_def)
  have o: "populateUserDropdown sampleData = [1, 2, 3]"
    by (simp add: populateUserDropdown_def sampleData_def loadData_def)
  from raw_ids_within_tables[OF h, of strictLib 0]
  show ?thesis using h o by (simp add: numUsers_sampleData d r t)
qed

end
